theory Spec2Isabelle
  imports
    Main
    "HOL-Library.Char_ord"
    "HOL-Library.List_Lexorder"
    "HOL-Library.Product_Lexorder"
    "HOL-Library.Sublist"
    "HOL-Library.Multiset"
    "HOL-Library.Word"
begin

unbundle bit_operations_syntax

section \<open>Python values, text formatting and dictionaries\<close>

text \<open>
  The exceptions that \<^verbatim>\<open>writer.py\<close> raises itself (\<^verbatim>\<open>VCDPhaseError\<close>,
  \<^verbatim>\<open>ValueError\<close>, \<^verbatim>\<open>TypeError\<close>, \<^verbatim>\<open>KeyError\<close>), the \<^verbatim>\<open>assert\<close>
  statements, and the exceptions of the built-ins it calls on values it does not check
  (\<^verbatim>\<open>val_str[0]\<close> on an empty string, \<^verbatim>\<open>format\<close> of an integer too large for a
  double). The message texts are not modelled.
\<close>

datatype error =
  VCDPhaseError | ValueError | TypeError | KeyError | AssertionError | IndexError | OverflowError

text \<open>
  The values a caller passes as \<^verbatim>\<open>value\<close> or \<^verbatim>\<open>init\<close>: \<^verbatim>\<open>None\<close>, a
  \<^verbatim>\<open>bool\<close>, an unbounded \<^verbatim>\<open>int\<close>, a \<^verbatim>\<open>float\<close> (an IEEE-754 double, kept as
  its 64-bit pattern) or a \<^verbatim>\<open>str\<close>.
\<close>

datatype pyval = PNone | PBool bool | PInt int | PFloat "64 word" | PStr string

text \<open>\<^verbatim>\<open>isinstance(value, six.integer_types)\<close>: \<^verbatim>\<open>bool\<close> is a subclass of \<^verbatim>\<open>int\<close>.\<close>

fun as_integer :: "pyval \<Rightarrow> int option" where
  "as_integer (PInt i) = Some i"
| "as_integer (PBool b) = Some (if b then 1 else 0)"
| "as_integer _ = None"

text \<open>\<^verbatim>\<open>isinstance(value, Number)\<close>.\<close>

fun is_number :: "pyval \<Rightarrow> bool" where
  "is_number (PInt _) = True"
| "is_number (PBool _) = True"
| "is_number (PFloat _) = True"
| "is_number _ = False"

text \<open>
  Truth value of an object, as \<^verbatim>\<open>if value:\<close> tests it. A float is false exactly when it
  is \<^verbatim>\<open>0.0\<close> or \<^verbatim>\<open>-0.0\<close>, that is when all bits but the sign bit are clear.
\<close>

fun truthy :: "pyval \<Rightarrow> bool" where
  "truthy PNone = False"
| "truthy (PBool b) = b"
| "truthy (PInt i) = (i \<noteq> 0)"
| "truthy (PFloat w) = (w AND 0x7FFFFFFFFFFFFFFF \<noteq> 0)"
| "truthy (PStr s) = (s \<noteq> [])"

definition digit_char :: "nat \<Rightarrow> char" where
  "digit_char d = ''0123456789'' ! (d mod 10)"

text \<open>\<^verbatim>\<open>str(n)\<close> for an integer: decimal digits, a minus sign when negative.\<close>

fun str_nat :: "nat \<Rightarrow> string" where
  "str_nat n = (if n < 10 then [digit_char n] else str_nat (n div 10) @ [digit_char (n mod 10)])"

declare str_nat.simps [simp del]

definition str_int :: "int \<Rightarrow> string" where
  "str_int i = (if i < 0 then CHR ''-'' # str_nat (nat (- i)) else str_nat (nat i))"

text \<open>\<^verbatim>\<open>'{:b}'.format(n)\<close>: binary digits without prefix, a minus sign when negative.\<close>

fun bin_nat :: "nat \<Rightarrow> string" where
  "bin_nat n = (if n < 2 then [digit_char n] else bin_nat (n div 2) @ [digit_char (n mod 2)])"

declare bin_nat.simps [simp del]

definition format_b :: "int \<Rightarrow> string" where
  "format_b i = (if i < 0 then CHR ''-'' # bin_nat (nat (- i)) else bin_nat (nat i))"

text \<open>
  \<^verbatim>\<open>s.split(sep)\<close> for a non-empty separator: cut at every occurrence of \<^verbatim>\<open>sep\<close>, found
  from the left without overlap. The second argument is the piece being read, reversed.
\<close>

fun split_from :: "string \<Rightarrow> string \<Rightarrow> string \<Rightarrow> string list" where
  "split_from sep acc [] = [rev acc]"
| "split_from sep acc (c # cs) =
     (if sep \<noteq> [] \<and> prefix sep (c # cs)
      then rev acc # split_from sep [] (drop (length sep - 1) cs)
      else split_from sep (c # acc) cs)"

text \<open>\<^verbatim>\<open>s.split(sep)\<close>; an empty separator raises \<^verbatim>\<open>ValueError\<close>.\<close>

definition split_str :: "string \<Rightarrow> string \<Rightarrow> error + string list" where
  "split_str s sep = (if sep = [] then Inl ValueError else Inr (split_from sep [] s))"

text \<open>
  A \<^verbatim>\<open>dict\<close> is an association list in insertion order with one entry per key:
  assignment replaces the value of a key that is present in place and appends a new key.
\<close>

type_synonym ('k, 'v) dict = "('k \<times> 'v) list"

fun dict_get :: "('k, 'v) dict \<Rightarrow> 'k \<Rightarrow> 'v option" where
  "dict_get [] k = None"
| "dict_get ((k', v) # d) k = (if k' = k then Some v else dict_get d k)"

fun dict_set :: "('k, 'v) dict \<Rightarrow> 'k \<Rightarrow> 'v \<Rightarrow> ('k, 'v) dict" where
  "dict_set [] k v = [(k, v)]"
| "dict_set ((k', v') # d) k v = (if k' = k then (k, v) # d else (k', v') # dict_set d k v)"

text \<open>\<^verbatim>\<open>d.setdefault(k, v)\<close>: inserts \<^verbatim>\<open>v\<close> when the key is absent; returns the value held.\<close>

definition dict_setdefault :: "('k, 'v) dict \<Rightarrow> 'k \<Rightarrow> 'v \<Rightarrow> 'v \<times> ('k, 'v) dict" where
  "dict_setdefault d k v =
     (case dict_get d k of Some v' \<Rightarrow> (v', d) | None \<Rightarrow> (v, d @ [(k, v)]))"

text \<open>\<^verbatim>\<open>d.pop(k)\<close>: removes the key and returns its value; \<^verbatim>\<open>KeyError\<close> when absent.\<close>

definition dict_pop :: "('k, 'v) dict \<Rightarrow> 'k \<Rightarrow> error + ('v \<times> ('k, 'v) dict)" where
  "dict_pop d k =
     (case dict_get d k of None \<Rightarrow> Inl KeyError
      | Some v \<Rightarrow> Inr (v, filter (\<lambda>kv. fst kv \<noteq> k) d))"

section \<open>Variables and their value encoders\<close>

text \<open>
  The three subclasses of \<^verbatim>\<open>Variable\<close>, each with the slots \<^verbatim>\<open>ident\<close>,
  \<^verbatim>\<open>type\<close> and \<^verbatim>\<open>size\<close>.
\<close>

datatype variable =
    ScalarVariable (ident: string) (type_v: string) (size_v: int)
  | RealVariable (ident: string) (type_v: string) (size_v: int)
  | VectorVariable (ident: string) (type_v: string) (size_v: int)

text \<open>
  \<^verbatim>\<open>'{:.16g}'.format(value)\<close> is Python's own float formatting; it is a parameter of the
  model, \<open>None\<close> standing for the \<^verbatim>\<open>OverflowError\<close> of an integer beyond the range of
  a double.
\<close>

type_synonym fmt_g16 = "pyval \<Rightarrow> string option"

text \<open>\<^verbatim>\<open>needle in haystack\<close> on strings: the needle occurs as a contiguous substring.\<close>

fun str_in :: "string \<Rightarrow> string \<Rightarrow> bool" where
  "str_in s [] = (s = [])"
| "str_in s (c # cs) = (prefix s (c # cs) \<or> str_in s cs)"

text \<open>\<^verbatim>\<open>ScalarVariable.format_value\<close>.\<close>

definition scalar_format_value :: "string \<Rightarrow> pyval \<Rightarrow> error + string" where
  "scalar_format_value idt val =
     (case val of
        PStr s \<Rightarrow>
          (if length s \<noteq> 1 \<or> \<not> str_in s ''01xzXZ'' then Inl ValueError
           else Inr (s @ idt))
      | PNone \<Rightarrow> Inr (''z'' @ idt)
      | _ \<Rightarrow> (if truthy val then Inr (''1'' @ idt) else Inr (''0'' @ idt)))"

text \<open>\<^verbatim>\<open>RealVariable.format_value\<close>.\<close>

definition real_format_value :: "fmt_g16 \<Rightarrow> string \<Rightarrow> pyval \<Rightarrow> error + string" where
  "real_format_value g idt val =
     (if is_number val
      then (case g val of None \<Rightarrow> Inl OverflowError
            | Some txt \<Rightarrow> Inr (''r'' @ txt @ '' '' @ idt))
      else Inl ValueError)"

text \<open>
  \<^verbatim>\<open>VectorVariable.format_value\<close>. \<^verbatim>\<open>1 << self.size\<close> raises \<^verbatim>\<open>ValueError\<close> for a
  negative size; \<^verbatim>\<open>max_val >> 1\<close> is the floor of half.
\<close>

definition vector_format_value :: "string \<Rightarrow> int \<Rightarrow> pyval \<Rightarrow> error + string" where
  "vector_format_value idt sz val =
     (case as_integer val of
        Some v \<Rightarrow>
          (if sz < 0 then Inl ValueError
           else let max_val = (2::int) ^ nat sz in
             if - v > max_val div 2 \<or> v \<ge> max_val then Inl ValueError
             else Inr (''b'' @ format_b (if v < 0 then v + max_val else v) @ '' '' @ idt))
      | None \<Rightarrow>
          (case val of
             PNone \<Rightarrow> Inr (''bz '' @ idt)
           | PStr s \<Rightarrow>
               (if int (length s) \<le> sz then Inr (''b'' @ s @ '' '' @ idt) else Inl ValueError)
           | _ \<Rightarrow> Inl ValueError))"

text \<open>\<^verbatim>\<open>var.format_value(value)\<close>, dispatched on the class of the variable.\<close>

fun format_value :: "fmt_g16 \<Rightarrow> variable \<Rightarrow> pyval \<Rightarrow> error + string" where
  "format_value g (ScalarVariable idt ty sz) val = scalar_format_value idt val"
| "format_value g (RealVariable idt ty sz) val = real_format_value g idt val"
| "format_value g (VectorVariable idt ty sz) val = vector_format_value idt sz val"

section \<open>The writer\<close>

text \<open>
  The output file: the lines handed to it by \<^verbatim>\<open>print\<close>, in order, and the number of
  times its \<^verbatim>\<open>flush()\<close> was called.
\<close>

record vcd_file =
  written :: "string list"
  flush_count :: nat

text \<open>
  The attributes of a \<^verbatim>\<open>VCDWriter\<close> (without their leading underscore).
  \<^verbatim>\<open>_scope_types\<close> holds \<^verbatim>\<open>None\<close> for a scope whose type was set to \<^verbatim>\<open>None\<close>.
  Timestamps are integers, as the docstrings of \<^verbatim>\<open>change\<close>, \<^verbatim>\<open>flush\<close> and
  \<^verbatim>\<open>close\<close> declare them, so that \<^verbatim>\<open>int(timestamp)\<close> is the timestamp itself.
\<close>

record writer =
  ofile :: vcd_file
  header_keywords :: "(string, string) dict"
  default_scope_type :: string
  scope_sep :: string
  registering :: bool
  closed :: bool
  dumping :: bool
  next_var_id :: int
  scope_var_strs :: "(string list, string list) dict"
  scope_var_names :: "(string list, string list) dict"
  scope_types :: "(string list, string option) dict"
  ident_values :: "(string, string) dict"
  prev_timestamp :: int

definition SCOPE_TYPES :: "string list" where
  "SCOPE_TYPES = [''begin'', ''fork'', ''function'', ''module'', ''task'']"

definition VAR_TYPES :: "string list" where
  "VAR_TYPES = [''event'', ''integer'', ''parameter'', ''real'', ''realtime'', ''reg'',
                ''supply0'', ''supply1'', ''time'', ''tri'', ''triand'', ''trior'',
                ''trireg'', ''tri0'', ''tri1'', ''wand'', ''wire'', ''wor'']"





text \<open>\<^verbatim>\<open>print(line, file=self._ofile)\<close>, one call for each line of the list.\<close>

definition emit :: "string list \<Rightarrow> writer \<Rightarrow> writer" where
  "emit ls w = w\<lparr>ofile := (ofile w)\<lparr>written := written (ofile w) @ ls\<rparr>\<rparr>"

text \<open>
  The lines of \<^verbatim>\<open>print(*xs, sep='\n', file=...)\<close>: the items, or one empty line when
  there is none.
\<close>

definition print_star :: "string list \<Rightarrow> string list" where
  "print_star xs = (if xs = [] then [[]] else xs)"

text \<open>
  A scope argument: a string, a sequence of strings, or an object that is neither.
\<close>

datatype scope_arg = ScopeStr string | ScopeSeq "string list" | ScopeOther

text \<open>\<^verbatim>\<open>_get_scope_tuple\<close>.\<close>

definition get_scope_tuple :: "writer \<Rightarrow> scope_arg \<Rightarrow> error + string list" where
  "get_scope_tuple w scope =
     (case scope of
        ScopeStr s \<Rightarrow> split_str s (scope_sep w)
      | ScopeSeq xs \<Rightarrow> Inr xs
      | ScopeOther \<Rightarrow> Inl TypeError)"

text \<open>\<^verbatim>\<open>set_scope_type\<close>: \<open>None\<close> when it returns, the error when it raises.\<close>

definition set_scope_type :: "writer \<Rightarrow> scope_arg \<Rightarrow> string option \<Rightarrow> error option \<times> writer" where
  "set_scope_type w scope scope_type =
     (if (case scope_type of None \<Rightarrow> False | Some t \<Rightarrow> t \<notin> set SCOPE_TYPES)
      then (Some ValueError, w)
      else case get_scope_tuple w scope of
             Inl e \<Rightarrow> (Some e, w)
           | Inr scope_tuple \<Rightarrow>
               (None, w\<lparr>scope_types := dict_set (scope_types w) scope_tuple scope_type\<rparr>))"

text \<open>\<^verbatim>\<open>_dump_values\<close>.\<close>

definition dump_values :: "string \<Rightarrow> writer \<Rightarrow> writer" where
  "dump_values keyword w =
     emit ([keyword] @ print_star (map snd (ident_values w)) @ [''$end'']) w"

text \<open>
  The loop of \<^verbatim>\<open>_dump_off\<close> over the cached values: the lines it prints, and the
  \<^verbatim>\<open>IndexError\<close> of \<^verbatim>\<open>val_str[0]\<close> on an empty string, which stops it.
\<close>

fun dump_off_items :: "(string, string) dict \<Rightarrow> error option \<times> string list" where
  "dump_off_items [] = (None, [])"
| "dump_off_items ((idt, val_str) # rest) =
     (case val_str of
        [] \<Rightarrow> (Some IndexError, [])
      | c # _ \<Rightarrow>
          (case dump_off_items rest of
             (e, ls) \<Rightarrow>
               (e, (if c = CHR ''b'' then [''bx '' @ idt]
                    else if c = CHR ''r'' then []
                    else [''x'' @ idt]) @ ls)))"

text \<open>\<^verbatim>\<open>_dump_off\<close>.\<close>

definition dump_off_impl :: "writer \<Rightarrow> int \<Rightarrow> error option \<times> writer" where
  "dump_off_impl w ts =
     (let w1 = emit [''#'' @ str_int ts, ''$dumpoff''] w in
      case dump_off_items (ident_values w) of
        (Some e, ls) \<Rightarrow> (Some e, emit ls w1)
      | (None, ls) \<Rightarrow> (None, emit (ls @ [''$end'']) w1))"

text \<open>\<^verbatim>\<open>dump_off\<close>.\<close>

definition dump_off :: "writer \<Rightarrow> int \<Rightarrow> error option \<times> writer" where
  "dump_off w ts =
     (if dumping w \<and> \<not> registering w \<and> ident_values w \<noteq> []
      then (case dump_off_impl w ts of
              (Some e, w1) \<Rightarrow> (Some e, w1)
            | (None, w1) \<Rightarrow> (None, w1\<lparr>dumping := False\<rparr>))
      else (None, w\<lparr>dumping := False\<rparr>))"

text \<open>\<^verbatim>\<open>dump_on\<close>; it raises nothing.\<close>

definition dump_on :: "writer \<Rightarrow> int \<Rightarrow> writer" where
  "dump_on w ts =
     (let w1 = (if \<not> dumping w \<and> \<not> registering w \<and> ident_values w \<noteq> []
                then dump_values ''$dumpon'' (emit [''#'' @ str_int ts] w)
                else w)
      in w1\<lparr>dumping := True\<rparr>)"

text \<open>
  The header keyword part of \<^verbatim>\<open>_gen_header\<close>, for one item of the sorted keyword
  dictionary.
\<close>

definition keyword_lines :: "string \<times> string \<Rightarrow> string list" where
  "keyword_lines kw =
     (case kw of (kwname, kwvalue) \<Rightarrow>
        if kwvalue = [] then []
        else (case split_from [CHR 0x0A] [] kwvalue of
                [line] \<Rightarrow> [kwname @ '' '' @ line @ '' $end'']
              | lines \<Rightarrow> [kwname] @ map (\<lambda>line. CHR 0x09 # line) lines @ [''$end'']))"

text \<open>
  The index of the first position at which \<^verbatim>\<open>zip_longest(prev_scope, scope)\<close> yields
  two different items (a missing item differs from every name); \<open>None\<close> when the loop
  over the pairs ends without \<^verbatim>\<open>break\<close>.
\<close>

fun first_diff :: "string list \<Rightarrow> string list \<Rightarrow> nat option" where
  "first_diff [] [] = None"
| "first_diff (x # xs) (y # ys) =
     (if x \<noteq> y then Some 0 else map_option Suc (first_diff xs ys))"
| "first_diff _ _ = Some 0"

text \<open>
  One \<^verbatim>\<open>$scope\<close> line: \<^verbatim>\<open>self._scope_types.get(sub, self._default_scope_type)\<close>
  formatted with \<^verbatim>\<open>{}\<close>, which prints a stored \<^verbatim>\<open>None\<close> as \<^verbatim>\<open>None\<close>.
\<close>

definition scope_line :: "writer \<Rightarrow> string list \<Rightarrow> string \<Rightarrow> string" where
  "scope_line w sub name =
     ''$scope '' @
     (case dict_get (scope_types w) sub of
        None \<Rightarrow> default_scope_type w
      | Some None \<Rightarrow> ''None''
      | Some (Some t) \<Rightarrow> t) @
     '' '' @ name @ '' $end''"

text \<open>
  The lines yielded when the loop of \<^verbatim>\<open>_gen_header\<close> moves from \<^verbatim>\<open>prev_scope\<close> to
  \<^verbatim>\<open>scope\<close>. \<^verbatim>\<open>prev_scope\<close> is \<open>None\<close> for the initial empty list, which is equal
  to no tuple, and \<open>Some p\<close> for the tuple \<open>p\<close> visited before; the \<^verbatim>\<open>assert\<close>
  of the \<^verbatim>\<open>else\<close> branch fails when \<^verbatim>\<open>scope\<close> equals that tuple.
\<close>

definition scope_switch :: "writer \<Rightarrow> string list option \<Rightarrow> string list \<Rightarrow> error + string list" where
  "scope_switch w prev_scope scope =
     (let prev = (case prev_scope of None \<Rightarrow> [] | Some p \<Rightarrow> p) in
      case first_diff prev scope of
        Some i \<Rightarrow>
          Inr (map (\<lambda>_. ''$upscope $end'') (drop i prev) @
               map (\<lambda>(j, name). scope_line w (take (i + j + 1) scope) name)
                 (enumerate 0 (drop i scope)))
      | None \<Rightarrow> if prev_scope = Some scope then Inl AssertionError else Inr [])"

text \<open>
  The scope loop of \<^verbatim>\<open>_gen_header\<close> over the sorted scope tuples, with the closing
  \<^verbatim>\<open>$upscope\<close> lines and \<^verbatim>\<open>$enddefinitions\<close>. Each visited scope is popped from
  \<^verbatim>\<open>_scope_var_strs\<close>; the dictionary is returned as the loop leaves it.
\<close>

fun gen_scopes ::
  "writer \<Rightarrow> string list option \<Rightarrow> string list list \<Rightarrow> (string list, string list) dict
     \<Rightarrow> (error + string list) \<times> (string list, string list) dict" where
  "gen_scopes w prev_scope [] d =
     (Inr (map (\<lambda>_. ''$upscope $end'') (case prev_scope of None \<Rightarrow> [] | Some p \<Rightarrow> p) @
           [''$enddefinitions $end'']), d)"
| "gen_scopes w prev_scope (scope # rest) d =
     (case dict_pop d scope of
        Inl e \<Rightarrow> (Inl e, d)
      | Inr (var_strs, d1) \<Rightarrow>
          (case scope_switch w prev_scope scope of
             Inl e \<Rightarrow> (Inl e, d1)
           | Inr ls \<Rightarrow>
               (case gen_scopes w (Some scope) rest d1 of
                  (Inl e, d2) \<Rightarrow> (Inl e, d2)
                | (Inr tl_lines, d2) \<Rightarrow> (Inr (ls @ var_strs @ tl_lines), d2))))"

text \<open>
  \<^verbatim>\<open>_gen_header\<close>, run to its end as the \<^verbatim>\<open>print(*self._gen_header(), ...)\<close> of
  \<^verbatim>\<open>_finalize_registration\<close> does: all the lines it yields, or the error it raises.
\<close>

definition gen_header :: "writer \<Rightarrow> (error + string list) \<times> writer" where
  "gen_header w =
     (case gen_scopes w None (sort (map fst (scope_var_strs w))) (scope_var_strs w) of
        (Inl e, d) \<Rightarrow> (Inl e, w\<lparr>scope_var_strs := d\<rparr>)
      | (Inr ls, d) \<Rightarrow>
          (Inr (concat (map keyword_lines (sort (header_keywords w))) @ ls),
           w\<lparr>scope_var_strs := d\<rparr>))"

text \<open>\<^verbatim>\<open>_finalize_registration\<close>.\<close>

definition finalize_registration :: "writer \<Rightarrow> error option \<times> writer" where
  "finalize_registration w =
     (if \<not> registering w then (Some AssertionError, w)
      else case gen_header w of
        (Inl e, w1) \<Rightarrow> (Some e, w1)
      | (Inr ls, w1) \<Rightarrow>
          (let w2 = emit (print_star ls) w1 in
           case (if ident_values w2 \<noteq> []
                 then (let w3 = dump_values ''$dumpvars'' w2
                       in if \<not> dumping w3 then dump_off_impl w3 0 else (None, w3))
                 else (None, w2)) of
             (Some e, w4) \<Rightarrow> (Some e, w4)
           | (None, w4) \<Rightarrow>
               (None, w4\<lparr>registering := False, header_keywords := [],
                         scope_types := [], scope_var_names := []\<rparr>)))"

text \<open>\<^verbatim>\<open>change\<close>: \<open>None\<close> when it returns, the error when it raises.\<close>

definition change :: "fmt_g16 \<Rightarrow> writer \<Rightarrow> variable \<Rightarrow> int \<Rightarrow> pyval \<Rightarrow> error option \<times> writer" where
  "change g w var timestamp val =
     (if timestamp < prev_timestamp w then (Some VCDPhaseError, w)
      else if closed w then (Some VCDPhaseError, w)
      else case format_value g var val of
        Inl e \<Rightarrow> (Some e, w)
      | Inr val_str \<Rightarrow>
          (case (if timestamp \<noteq> 0 \<and> registering w then finalize_registration w
                 else (None, w)) of
             (Some e, w1) \<Rightarrow> (Some e, w1)
           | (None, w1) \<Rightarrow>
               if timestamp \<noteq> 0 \<and> dumping w1
               then (let w2 = (if timestamp > prev_timestamp w1
                               then (emit [''#'' @ str_int timestamp] w1)
                                      \<lparr>prev_timestamp := timestamp\<rparr>
                               else w1)
                     in (None, emit [val_str] w2))
               else (None, w1\<lparr>ident_values :=
                                 dict_set (ident_values w1) (ident var) val_str\<rparr>)))"

text \<open>
  \<^verbatim>\<open>register_var\<close>: the variable it returns or the error it raises, and the writer as
  the call leaves it.
\<close>

definition register_var ::
  "fmt_g16 \<Rightarrow> writer \<Rightarrow> scope_arg \<Rightarrow> string \<Rightarrow> string \<Rightarrow> int \<Rightarrow> pyval \<Rightarrow> string option
     \<Rightarrow> (error + variable) \<times> writer" where
  "register_var g w scope name var_type sz init idt =
     (if closed w then (Inl VCDPhaseError, w)
      else if \<not> registering w then (Inl VCDPhaseError, w)
      else if var_type \<notin> set VAR_TYPES then (Inl ValueError, w)
      else case get_scope_tuple w scope of
        Inl e \<Rightarrow> (Inl e, w)
      | Inr scope_tuple \<Rightarrow>
          (case dict_setdefault (scope_var_names w) scope_tuple [] of
             (scope_names, names1) \<Rightarrow>
               (let w1 = w\<lparr>scope_var_names := names1\<rparr> in
                if name \<in> set scope_names then (Inl KeyError, w1)
                else
                  (let idt1 = (case idt of None \<Rightarrow> ''v'' @ str_int (next_var_id w1)
                               | Some i \<Rightarrow> i);
                       var_str = ''$var '' @ var_type @ '' '' @ str_int sz @ '' '' @ idt1 @
                                 '' '' @ name @ '' $end'';
                       init1 = (if init = PNone
                                then (if var_type = ''real'' then PFloat 0 else PStr ''x'')
                                else init);
                       var = (if sz = 1 then ScalarVariable idt1 var_type sz
                              else if var_type = ''real'' then RealVariable idt1 var_type sz
                              else VectorVariable idt1 var_type sz)
                   in case change g w1 var 0 init1 of
                        (Some e, w2) \<Rightarrow> (Inl e, w2)
                      | (None, w2) \<Rightarrow>
                          (Inr var,
                           w2\<lparr>next_var_id := next_var_id w2 + 1,
                              scope_var_strs :=
                                dict_set (scope_var_strs w2) scope_tuple
                                  ((case dict_get (scope_var_strs w2) scope_tuple of
                                      None \<Rightarrow> [] | Some strs \<Rightarrow> strs) @ [var_str]),
                              scope_var_names :=
                                dict_set (scope_var_names w2) scope_tuple
                                  (scope_names @ [name])\<rparr>)))))"

text \<open>
  The convenience wrappers, with every argument given (their defaults are
  \<^verbatim>\<open>size=64, init='x'\<close> for \<^verbatim>\<open>register_int\<close>, \<^verbatim>\<open>size=64, init=0.0\<close> for
  \<^verbatim>\<open>register_real\<close>, \<^verbatim>\<open>size=1, init='z'\<close> for \<^verbatim>\<open>register_event\<close>, and
  \<^verbatim>\<open>ident=None\<close>).
\<close>

definition register_int ::
  "fmt_g16 \<Rightarrow> writer \<Rightarrow> scope_arg \<Rightarrow> string \<Rightarrow> int \<Rightarrow> pyval \<Rightarrow> string option
     \<Rightarrow> (error + variable) \<times> writer" where
  "register_int g w scope name sz init idt = register_var g w scope name ''integer'' sz init idt"

definition register_real ::
  "fmt_g16 \<Rightarrow> writer \<Rightarrow> scope_arg \<Rightarrow> string \<Rightarrow> int \<Rightarrow> pyval \<Rightarrow> string option
     \<Rightarrow> (error + variable) \<times> writer" where
  "register_real g w scope name sz init idt = register_var g w scope name ''real'' sz init None"

definition register_event ::
  "fmt_g16 \<Rightarrow> writer \<Rightarrow> scope_arg \<Rightarrow> string \<Rightarrow> int \<Rightarrow> pyval \<Rightarrow> string option
     \<Rightarrow> (error + variable) \<times> writer" where
  "register_event g w scope name sz init idt = register_var g w scope name ''event'' sz init idt"

text \<open>\<^verbatim>\<open>flush\<close>.\<close>

definition flush :: "writer \<Rightarrow> int option \<Rightarrow> error option \<times> writer" where
  "flush w timestamp =
     (if closed w then (Some VCDPhaseError, w)
      else case (if registering w then finalize_registration w else (None, w)) of
        (Some e, w1) \<Rightarrow> (Some e, w1)
      | (None, w1) \<Rightarrow>
          (let w2 = (case timestamp of
                       None \<Rightarrow> w1
                     | Some t \<Rightarrow> if t > prev_timestamp w1 then emit [''#'' @ str_int t] w1 else w1)
           in (None, w2\<lparr>ofile := (ofile w2)\<lparr>flush_count := Suc (flush_count (ofile w2))\<rparr>\<rparr>)))"

text \<open>\<^verbatim>\<open>close\<close>.\<close>

definition close :: "writer \<Rightarrow> int option \<Rightarrow> error option \<times> writer" where
  "close w timestamp =
     (if \<not> closed w
      then (case flush w timestamp of
              (Some e, w1) \<Rightarrow> (Some e, w1)
            | (None, w1) \<Rightarrow> (None, w1\<lparr>closed := True\<rparr>))
      else (None, w))"

section \<open>Sequences of calls\<close>

text \<open>
  A call of a public method of the writer, and the writer as the call leaves it, whether
  it returned or raised (a caller that catches the exception goes on with that writer).
\<close>

datatype call =
    SetScopeType scope_arg "string option"
  | RegisterVar scope_arg string string int pyval "string option"
  | Change variable int pyval
  | DumpOff int
  | DumpOn int
  | Flush "int option"
  | Close "int option"

fun after_call :: "fmt_g16 \<Rightarrow> writer \<Rightarrow> call \<Rightarrow> writer" where
  "after_call g w (SetScopeType scope scope_type) = snd (set_scope_type w scope scope_type)"
| "after_call g w (RegisterVar scope name var_type sz init idt) =
     snd (register_var g w scope name var_type sz init idt)"
| "after_call g w (Change var timestamp val) = snd (change g w var timestamp val)"
| "after_call g w (DumpOff timestamp) = snd (dump_off w timestamp)"
| "after_call g w (DumpOn timestamp) = dump_on w timestamp"
| "after_call g w (Flush timestamp) = snd (flush w timestamp)"
| "after_call g w (Close timestamp) = snd (close w timestamp)"

definition run :: "fmt_g16 \<Rightarrow> writer \<Rightarrow> call list \<Rightarrow> writer" where
  "run g w calls = foldl (after_call g) w calls"



text \<open>
  The texts of a call that reach the output as the caller gave them: the scope, the name
  and the ident of a registration, the ident of the variable of a value change, and a
  string value given to a vector variable, which \<^verbatim>\<open>VectorVariable.format_value\<close>
  copies unchecked (a scalar variable accepts only a single state character, a real
  variable no string). \<^verbatim>\<open>register_var\<close> makes a vector variable when the
  size is not 1 and the type is not \<^verbatim>\<open>real\<close>.
\<close>

fun scope_texts :: "scope_arg \<Rightarrow> string list" where
  "scope_texts (ScopeStr s) = [s]"
| "scope_texts (ScopeSeq xs) = xs"
| "scope_texts ScopeOther = []"

fun value_texts :: "pyval \<Rightarrow> string list" where
  "value_texts (PStr s) = [s]"
| "value_texts _ = []"

fun call_texts :: "call \<Rightarrow> string list" where
  "call_texts (RegisterVar scope name var_type sz init idt) =
     scope_texts scope @ [name] @ (case idt of None \<Rightarrow> [] | Some i \<Rightarrow> [i]) @
     (if sz \<noteq> 1 \<and> var_type \<noteq> ''real'' then value_texts init else [])"
| "call_texts (Change (VectorVariable idt ty sz) t val) = [idt] @ value_texts val"
| "call_texts (Change var t val) = [ident var]"
| "call_texts _ = []"

text \<open>A text without a line break, and the calls whose texts have none.\<close>

definition one_line :: "string \<Rightarrow> bool" where
  "one_line s = (CHR 0x0A \<notin> set s)"


text \<open>
  The lines of the output stream: \<^verbatim>\<open>print\<close> ends each of its arguments with a line
  break, so the lines of the file are the lines of the printed arguments, each cut at its
  own line breaks. The timestamp marker lines are the lines that start with \<^verbatim>\<open>#\<close>;
  \<open>marker_line t\<close> is the line that marks the time \<open>t\<close>.
\<close>

definition stream_lines :: "writer \<Rightarrow> string list" where
  "stream_lines w = concat (map (split_from [CHR 0x0A] []) (written (ofile w)))"

definition is_marker :: "string \<Rightarrow> bool" where
  "is_marker line = (case line of [] \<Rightarrow> False | c # _ \<Rightarrow> c = CHR ''#'')"

definition marker_line :: "int \<Rightarrow> string" where
  "marker_line t = ''#'' @ str_int t"

definition markers :: "writer \<Rightarrow> string list" where
  "markers w = filter is_marker (stream_lines w)"

section \<open>Reading an emitted vector value back\<close>

text \<open>
  The decoding that the specification's round-trip property speaks of. The digits of an
  emitted vector line stand between the leading \<^verbatim>\<open>b\<close> and the space before the ident;
  they are read as an unsigned binary number, and as a two's-complement number of a given
  width.
\<close>

definition vector_line_digits :: "string \<Rightarrow> string" where
  "vector_line_digits line = takeWhile (\<lambda>c. c \<noteq> CHR '' '') (drop 1 line)"

definition unsigned_of_bin :: "string \<Rightarrow> nat" where
  "unsigned_of_bin ds = foldl (\<lambda>acc c. 2 * acc + (if c = CHR ''1'' then 1 else 0)) 0 ds"

definition twos_complement_decode :: "nat \<Rightarrow> string \<Rightarrow> int" where
  "twos_complement_decode n ds =
     (let u = int (unsigned_of_bin ds) in if u \<ge> 2 ^ (n - 1) then u - 2 ^ n else u)"

section \<open>A writer to run examples on\<close>

text \<open>
  The writer that \<^verbatim>\<open>VCDWriter(file, date='today')\<close> constructs on an empty file with the
  defaults of every other parameter.
\<close>

definition fresh_writer :: writer where
  "fresh_writer =
     \<lparr>ofile = \<lparr>written = [], flush_count = 0\<rparr>,
      header_keywords =
        [(''$timescale'', ''1 us''), (''$date'', ''today''),
         (''$comment'', []), (''$version'', [])],
      default_scope_type = ''module'', scope_sep = ''.'', registering = True,
      closed = False, dumping = True, next_var_id = 0, scope_var_strs = [],
      scope_var_names = [], scope_types = [], ident_values = [],
      prev_timestamp = 0\<rparr>"

text \<open>A stand-in for Python's float formatting in the examples; none of them formats a real.\<close>

definition no_reals :: fmt_g16 where
  "no_reals = (\<lambda>v. None)"

text \<open>
  A stand-in that is right on the one real it is asked for in the examples:
  \<^verbatim>\<open>'{:.16g}'.format(0.0)\<close> is \<^verbatim>\<open>0\<close>.
\<close>

definition g16_of_zero :: fmt_g16 where
  "g16_of_zero = (\<lambda>v. if v = PFloat 0 then Some ''0'' else None)"

text \<open>
  What every reachable writer satisfies: \<^verbatim>\<open>_scope_var_strs\<close> has one entry per key, as
  a dictionary has, and no cached value is the empty string.
\<close>

definition well_formed :: "writer \<Rightarrow> bool" where
  "well_formed w =
     (distinct (map fst (scope_var_strs w)) \<and> (\<forall>kv \<in> set (ident_values w). snd kv \<noteq> []))"

section \<open>What holds of the output stream along a run\<close>

text \<open>
  A list of marker lines is ordered up to a clock \<open>c\<close> when the lines mark
  non-decreasing times, none after \<open>c\<close>.
\<close>

definition ordered_markers :: "int \<Rightarrow> string list \<Rightarrow> bool" where
  "ordered_markers c ms =
     (\<exists>ts. ms = map marker_line ts \<and> sorted ts \<and> (\<forall>t \<in> set ts. t \<le> c))"

text \<open>
  A line that is staged or cached is plain when it is a single line and would not read
  as a marker.
\<close>

definition plain_line :: "string \<Rightarrow> bool" where
  "plain_line s = (one_line s \<and> \<not> is_marker s)"

text \<open>
  The invariant of a run, for a clock \<open>c\<close> that no marker written so far exceeds: the
  writer is well formed, its cursor is between 0 and \<open>c\<close>, the markers of the stream are
  ordered up to \<open>c\<close> and there is none before the header is written, every line that is
  staged or cached (a header keyword, a \<^verbatim>\<open>$var\<close> line, a cached value) is plain, and
  every text that will be copied into a line (a scope name, a cached ident, a scope type)
  is a single line.
\<close>

definition stream_inv :: "int \<Rightarrow> writer \<Rightarrow> bool" where
  "stream_inv c w =
     (well_formed w \<and> 0 \<le> prev_timestamp w \<and> prev_timestamp w \<le> c
      \<and> ordered_markers c (markers w)
      \<and> (registering w \<longrightarrow> markers w = [])
      \<and> (\<forall>kv \<in> set (header_keywords w). plain_line (fst kv))
      \<and> (\<forall>kv \<in> set (scope_var_strs w).
            (\<forall>n \<in> set (fst kv). one_line n) \<and> (\<forall>s \<in> set (snd kv). plain_line s))
      \<and> (\<forall>kv \<in> set (ident_values w). one_line (fst kv) \<and> plain_line (snd kv))
      \<and> one_line (default_scope_type w)
      \<and> (\<forall>kv \<in> set (scope_types w). \<forall>t. snd kv = Some t \<longrightarrow> one_line t))"

section \<open>The constructor\<close>


section \<open>The vector encoder on integers (claim C2)\<close>

lemma digit_char_0 [simp]: "digit_char 0 = CHR ''0''"
  by (simp add: digit_char_def)

lemma digit_char_1 [simp]: "digit_char (Suc 0) = CHR ''1''"
  by (simp add: digit_char_def)

lemma digit_char_bit: "d < 2 \<Longrightarrow> digit_char d = (if d = 0 then CHR ''0'' else CHR ''1'')"
  by (cases d) (auto simp: digit_char_def)

lemma bin_nat_chars: "set (bin_nat m) \<subseteq> {CHR ''0'', CHR ''1''}"
proof (induction m rule: bin_nat.induct)
  case (1 n)
  show ?case
  proof (cases "n < 2")
    case True
    then show ?thesis by (subst bin_nat.simps) (auto simp: digit_char_bit)
  next
    case False
    have "n mod 2 < 2" by simp
    then have "digit_char (n mod 2) \<in> {CHR ''0'', CHR ''1''}"
      by (simp add: digit_char_bit)
    with False 1 show ?thesis by (subst bin_nat.simps) auto
  qed
qed

lemma unsigned_of_bin_snoc:
  "unsigned_of_bin (ds @ [c]) = 2 * unsigned_of_bin ds + (if c = CHR ''1'' then 1 else 0)"
  by (simp add: unsigned_of_bin_def)

lemma unsigned_of_bin_bin_nat: "unsigned_of_bin (bin_nat m) = m"
proof (induction m rule: bin_nat.induct)
  case (1 n)
  show ?case
  proof (cases "n < 2")
    case True
    then show ?thesis
      by (subst bin_nat.simps) (auto simp: digit_char_bit unsigned_of_bin_def)
  next
    case False
    have "n mod 2 < 2" by simp
    then have d: "(if digit_char (n mod 2) = CHR ''1'' then 1 else 0) = n mod 2"
      by (auto simp: digit_char_bit)
    from False 1 have "unsigned_of_bin (bin_nat (n div 2)) = n div 2" by simp
    with False d show ?thesis
      by (subst bin_nat.simps) (simp add: unsigned_of_bin_snoc)
  qed
qed

lemma vector_line_digits_bin:
  "vector_line_digits (''b'' @ bin_nat m @ '' '' @ idt) = bin_nat m"
proof -
  have "\<forall>c \<in> set (bin_nat m). c \<noteq> CHR '' ''"
    using bin_nat_chars [of m] by auto
  then show ?thesis
    by (simp add: vector_line_digits_def takeWhile_tail)
qed

lemma mod_of_negative:
  fixes v m :: int
  assumes "- m \<le> v" and "v < 0"
  shows "v mod m = v + m"
proof -
  have "v mod m = (v + m) mod m" by simp
  also have "\<dots> = v + m" using assms by (intro mod_pos_pos_trivial) linarith+
  finally show ?thesis .
qed

lemma half_le:
  fixes a :: int
  shows "0 \<le> a \<Longrightarrow> a div 2 \<le> a"
  by presburger

lemma vector_format_int:
  assumes "0 \<le> n" and "- (2 ^ nat n div 2) \<le> v" and "v < 2 ^ nat n"
  shows "vector_format_value idt n (PInt v) =
           Inr (''b'' @ bin_nat (nat (v mod 2 ^ nat n)) @ '' '' @ idt)"
proof (cases "v < 0")
  case True
  have "(2::int) ^ nat n div 2 \<le> 2 ^ nat n" by (rule half_le) simp
  with assms have lo: "- (2 ^ nat n) \<le> v" by linarith
  with True have md: "v mod 2 ^ nat n = v + 2 ^ nat n" by (simp add: mod_of_negative)
  from lo have "\<not> v + 2 ^ nat n < 0" by linarith
  with assms True show ?thesis
    by (simp add: vector_format_value_def Let_def format_b_def md)
next
  case False
  with assms have md: "v mod 2 ^ nat n = v" by simp
  from assms False show ?thesis
    by (simp add: vector_format_value_def Let_def format_b_def md)
qed

text \<open>
  Claim C2 says that for \<open>-(2^(n-1)) \<le> v < 2^n\<close> the emitted digits, decoded as a
  two's-complement number of width \<open>n\<close>, give \<open>v\<close> back. The encoder accepts this
  whole range, but the upper half \<open>2^(n-1) \<le> v < 2^n\<close> shares its bit patterns with the
  negative values: 255 in 8 bits is emitted as \<^verbatim>\<open>b11111111\<close>, which two's complement
  reads as \<open>-1\<close>.
\<close>

theorem twos_complement_roundtrip_counterexample:
  "\<not> (case format_value no_reals (VectorVariable ''v1'' ''reg'' 8) (PInt 255) of
         Inl e \<Rightarrow> False
       | Inr line \<Rightarrow> twos_complement_decode 8 (vector_line_digits line) = 255)"
  by code_simp

text \<open>
  C2, as amended: for \<open>0 < n\<close> and \<open>-(2^(n-1)) \<le> v < 2^n\<close> the vector encoder succeeds
  and emits \<^verbatim>\<open>b\<close>, the binary digits of \<open>v mod 2^n\<close>, a space and the ident. Read as
  an unsigned number the digits give \<open>v mod 2^n\<close>; read as two's complement of width
  \<open>n\<close> they give \<open>v\<close> when \<open>v < 2^(n-1)\<close>, and \<open>v - 2^n\<close> otherwise.
\<close>

theorem vector_encoder_roundtrip:
  assumes "0 < n" and "- (2 ^ (nat n - 1)) \<le> v" and "v < 2 ^ nat n"
  shows "format_value g (VectorVariable idt ty n) (PInt v) =
           Inr (''b'' @ bin_nat (nat (v mod 2 ^ nat n)) @ '' '' @ idt)
       \<and> int (unsigned_of_bin (vector_line_digits
               (''b'' @ bin_nat (nat (v mod 2 ^ nat n)) @ '' '' @ idt))) = v mod 2 ^ nat n
       \<and> twos_complement_decode (nat n) (vector_line_digits
               (''b'' @ bin_nat (nat (v mod 2 ^ nat n)) @ '' '' @ idt)) =
           (if v < 2 ^ (nat n - 1) then v else v - 2 ^ nat n)"
proof -
  from assms(1) obtain k where k: "nat n = Suc k" by (cases "nat n") auto
  then have half: "(2::int) ^ nat n div 2 = 2 ^ (nat n - 1)" by simp
  have fmt: "vector_format_value idt n (PInt v) =
           Inr (''b'' @ bin_nat (nat (v mod 2 ^ nat n)) @ '' '' @ idt)"
    using assms by (intro vector_format_int) (simp_all add: half)
  have u: "int (unsigned_of_bin (bin_nat (nat (v mod 2 ^ nat n)))) = v mod 2 ^ nat n"
    by (simp add: unsigned_of_bin_bin_nat)
  have dec: "(if v mod 2 ^ nat n \<ge> 2 ^ (nat n - 1) then v mod 2 ^ nat n - 2 ^ nat n
              else v mod 2 ^ nat n) = (if v < 2 ^ (nat n - 1) then v else v - 2 ^ nat n)"
  proof (cases "v < 0")
    case True
    have lt: "(2::int) ^ (nat n - 1) < 2 ^ nat n" using k by simp
    have dbl: "(2::int) ^ nat n = 2 * 2 ^ (nat n - 1)" using k by simp
    from True assms lt have "- (2 ^ nat n) \<le> v" by linarith
    with True have md: "v mod 2 ^ nat n = v + 2 ^ nat n" by (simp add: mod_of_negative)
    have pos: "(0::int) < 2 ^ (nat n - 1)" by simp
    from True assms dbl pos show ?thesis unfolding md by auto
  next
    case False
    with assms have md: "v mod 2 ^ nat n = v" by simp
    show ?thesis unfolding md by simp
  qed
  have ds: "vector_line_digits (''b'' @ bin_nat (nat (v mod 2 ^ nat n)) @ '' '' @ idt) =
              bin_nat (nat (v mod 2 ^ nat n))"
    by (rule vector_line_digits_bin)
  have two: "twos_complement_decode (nat n) (bin_nat (nat (v mod 2 ^ nat n))) =
               (if v < 2 ^ (nat n - 1) then v else v - 2 ^ nat n)"
    unfolding twos_complement_decode_def Let_def u by (rule dec)
  show ?thesis
    unfolding ds using fmt u two by simp
qed

text \<open>The amended C2 at \<open>n = 8\<close>, \<open>v = -3\<close>.\<close>

theorem vector_encoder_roundtrip_witness:
  "(0::int) < 8 \<and> - (2 ^ (nat 8 - 1)) \<le> (- 3::int) \<and> (- 3::int) < 2 ^ nat 8
   \<and> format_value no_reals (VectorVariable ''v1'' ''reg'' 8) (PInt (- 3)) = Inr ''b11111101 v1''
   \<and> twos_complement_decode (nat 8) (vector_line_digits ''b11111101 v1'') = - 3"
proof -
  have h: "(0::int) < 8" "- (2 ^ (nat 8 - 1)) \<le> (- 3::int)" "(- 3::int) < 2 ^ nat 8"
    by simp_all
  have b: "bin_nat (nat ((- 3) mod 2 ^ nat 8)) = ''11111101''"
    by code_simp
  from vector_encoder_roundtrip [OF h, of no_reals "''v1''" "''reg''"] show ?thesis
    unfolding b by simp
qed

section \<open>The scalar encoder (claim C7)\<close>

text \<open>
  Claim C7 says that the letter states are case-folded to lowercase. The encoder
  accepts \<^verbatim>\<open>X\<close> and \<^verbatim>\<open>Z\<close> and emits them as given: \<^verbatim>\<open>value + self.ident\<close>.
\<close>

theorem scalar_case_fold_counterexample:
  "format_value no_reals (ScalarVariable ''v0'' ''wire'' 1) (PStr ''X'') = Inr ''Xv0''
   \<and> format_value no_reals (ScalarVariable ''v0'' ''wire'' 1) (PStr ''X'') \<noteq> Inr ''xv0''"
  by (simp add: scalar_format_value_def)

text \<open>
  C7, as amended: for every input among \<open>0, 1, 'x', 'z', 'X', 'Z', True, False, None\<close>
  the scalar encoder returns exactly one state character immediately followed by the
  ident: \<^verbatim>\<open>0\<close> for \<open>0\<close> and \<open>False\<close>, \<^verbatim>\<open>1\<close> for \<open>1\<close> and \<open>True\<close>,
  \<^verbatim>\<open>z\<close> for \<open>None\<close>, and a letter state exactly as it was given, uppercase
  included.
\<close>

theorem scalar_encoder_valid_inputs:
  "format_value g (ScalarVariable idt ty sz) (PInt 0) = Inr (CHR ''0'' # idt)
   \<and> format_value g (ScalarVariable idt ty sz) (PInt 1) = Inr (CHR ''1'' # idt)
   \<and> format_value g (ScalarVariable idt ty sz) (PStr ''x'') = Inr (CHR ''x'' # idt)
   \<and> format_value g (ScalarVariable idt ty sz) (PStr ''z'') = Inr (CHR ''z'' # idt)
   \<and> format_value g (ScalarVariable idt ty sz) (PStr ''X'') = Inr (CHR ''X'' # idt)
   \<and> format_value g (ScalarVariable idt ty sz) (PStr ''Z'') = Inr (CHR ''Z'' # idt)
   \<and> format_value g (ScalarVariable idt ty sz) (PBool True) = Inr (CHR ''1'' # idt)
   \<and> format_value g (ScalarVariable idt ty sz) (PBool False) = Inr (CHR ''0'' # idt)
   \<and> format_value g (ScalarVariable idt ty sz) PNone = Inr (CHR ''z'' # idt)"
  by (simp add: scalar_format_value_def)

section \<open>Suspending and resuming the dump (claim C1)\<close>

text \<open>
  Claim C1: after \<^verbatim>\<open>dump_off\<close> and a later \<^verbatim>\<open>dump_on\<close>, the \<^verbatim>\<open>$dumpon\<close> block
  holds the last value of every variable before the suspension, whatever changes were
  emitted live. Here \<^verbatim>\<open>clk\<close> is registered with 0 and changed to 1 at time 10, which
  is printed but not stored in the cache; the dump is suspended at 20 and resumed at 30,
  and the \<^verbatim>\<open>$dumpon\<close> block replays the value of time 0.
\<close>

theorem resume_replays_cached_value:
  "written (ofile (run no_reals fresh_writer
       [RegisterVar (ScopeStr ''top'') ''clk'' ''wire'' 1 (PInt 0) None,
        Change (ScalarVariable ''v0'' ''wire'' 1) 10 (PInt 1),
        DumpOff 20,
        DumpOn 30])) =
     [''$date today $end'', ''$timescale 1 us $end'', ''$scope module top $end'',
      ''$var wire 1 v0 clk $end'', ''$upscope $end'', ''$enddefinitions $end'',
      ''$dumpvars'', ''0v0'', ''$end'',
      ''#10'', ''1v0'',
      ''#20'', ''$dumpoff'', ''xv0'', ''$end'',
      ''#30'', ''$dumpon'', ''0v0'', ''$end'']"
  by code_simp

section \<open>Rejected calls (claim C6)\<close>

lemma change_rejected_value:
  assumes "format_value g var val = Inl e"
  shows "\<exists>e'. change g w var timestamp val = (Some e', w)"
  using assms by (simp add: change_def)

lemma register_var_failure:
  assumes "register_var g w scope name var_type sz init idt = (Inl e, w')"
  shows "w' = w \<or>
         (\<exists>scope_tuple. get_scope_tuple w scope = Inr scope_tuple \<and>
            dict_get (scope_var_names w) scope_tuple = None \<and>
            w' = w\<lparr>scope_var_names := scope_var_names w @ [(scope_tuple, [])]\<rparr>)"
  using assms unfolding register_var_def Let_def dict_setdefault_def change_def
  by (auto split: if_splits sum.splits prod.splits option.splits)

text \<open>
  Claim C6: a registration whose initial value is rejected mutates nothing. The value 7
  does not fit 2 bits, so \<^verbatim>\<open>register_var\<close> raises \<^verbatim>\<open>ValueError\<close>; but
  \<^verbatim>\<open>self._scope_var_names.setdefault(scope_tuple, [])\<close> ran before the value was
  formatted, and the name index keeps an empty entry for the scope.
\<close>

theorem rejected_registration_residue:
  "register_var no_reals fresh_writer (ScopeStr ''top'') ''data'' ''wire'' 2 (PInt 7) None =
     (Inl ValueError, fresh_writer\<lparr>scope_var_names := [([''top''], [])]\<rparr>)
   \<and> fresh_writer\<lparr>scope_var_names := [([''top''], [])]\<rparr> \<noteq> fresh_writer"
  by code_simp

section \<open>Scope types (claim C8)\<close>

lemma set_scope_type_invalid_tag:
  "t \<notin> set SCOPE_TYPES \<Longrightarrow> set_scope_type w scope (Some t) = (Some ValueError, w)"
  by (simp add: set_scope_type_def)

text \<open>
  Claim C8: a scope type set to \<^verbatim>\<open>None\<close> means the default. \<^verbatim>\<open>set_scope_type\<close>
  stores the \<^verbatim>\<open>None\<close>, and \<^verbatim>\<open>self._scope_types.get(..., default)\<close> then finds the
  key and returns it: the header reads \<^verbatim>\<open>$scope None top $end\<close>, where the same calls
  without \<^verbatim>\<open>set_scope_type\<close> give \<^verbatim>\<open>$scope module top $end\<close>.
\<close>

theorem scope_type_none_printed:
  "written (ofile (run no_reals fresh_writer
       [SetScopeType (ScopeStr ''top'') None,
        RegisterVar (ScopeStr ''top'') ''clk'' ''wire'' 1 (PInt 0) None,
        Flush None])) =
     [''$date today $end'', ''$timescale 1 us $end'', ''$scope None top $end'',
      ''$var wire 1 v0 clk $end'', ''$upscope $end'', ''$enddefinitions $end'',
      ''$dumpvars'', ''0v0'', ''$end'']
   \<and> written (ofile (run no_reals fresh_writer
       [RegisterVar (ScopeStr ''top'') ''clk'' ''wire'' 1 (PInt 0) None,
        Flush None])) =
     [''$date today $end'', ''$timescale 1 us $end'', ''$scope module top $end'',
      ''$var wire 1 v0 clk $end'', ''$upscope $end'', ''$enddefinitions $end'',
      ''$dumpvars'', ''0v0'', ''$end'']"
  by code_simp

section \<open>The registration wrappers (claim C9)\<close>

lemma register_int_forwards:
  "register_int g w scope name sz init idt = register_var g w scope name ''integer'' sz init idt"
  by (simp add: register_int_def)

lemma register_event_forwards:
  "register_event g w scope name sz init idt = register_var g w scope name ''event'' sz init idt"
  by (simp add: register_event_def)

text \<open>
  Claim C9: each wrapper forwards every argument, a caller's ident included.
  \<^verbatim>\<open>register_real\<close> passes \<^verbatim>\<open>ident=None\<close> instead of \<^verbatim>\<open>ident\<close>: the variable gets
  the generated ident \<^verbatim>\<open>v0\<close>, where \<^verbatim>\<open>register_var\<close> with the same arguments uses
  the caller's \<^verbatim>\<open>t\<close>.
\<close>

theorem register_real_drops_ident:
  "fst (register_real g16_of_zero fresh_writer (ScopeStr ''top'') ''temp'' 64 (PFloat 0)
          (Some ''t'')) = Inr (RealVariable ''v0'' ''real'' 64)
   \<and> fst (register_var g16_of_zero fresh_writer (ScopeStr ''top'') ''temp'' ''real'' 64
          (PFloat 0) (Some ''t'')) = Inr (RealVariable ''t'' ''real'' 64)"
  by code_simp

section \<open>The encoder a registered variable gets (claim C10)\<close>

lemma scalar_format_number:
  "is_number x \<Longrightarrow>
     scalar_format_value idt x = Inr ((if truthy x then ''1'' else ''0'') @ idt)"
  by (cases x) (simp_all add: scalar_format_value_def)

text \<open>
  C10: \<^verbatim>\<open>register_var\<close> tests the size before the type. The variable it returns is a
  \<^verbatim>\<open>ScalarVariable\<close> exactly when the size is 1, whatever the type, and a
  \<^verbatim>\<open>RealVariable\<close> exactly when the size is not 1 and the type is \<^verbatim>\<open>real\<close>; it
  keeps the type and the size it was registered with. So a 1-bit \<^verbatim>\<open>real\<close> variable
  formats every value by the scalar rules, a number becoming \<^verbatim>\<open>1\<close> or \<^verbatim>\<open>0\<close> by
  its truth value, and the real formatting is never used for it.
\<close>

theorem register_var_size_before_type:
  assumes "register_var g w scope name var_type sz init idt = (Inr var, w')"
  shows "is_ScalarVariable var = (sz = 1)
       \<and> is_RealVariable var = (sz \<noteq> 1 \<and> var_type = ''real'')
       \<and> is_VectorVariable var = (sz \<noteq> 1 \<and> var_type \<noteq> ''real'')
       \<and> type_v var = var_type \<and> size_v var = sz
       \<and> (sz = 1 \<longrightarrow> format_value g var x = scalar_format_value (ident var) x)
       \<and> (sz = 1 \<and> is_number x \<longrightarrow>
            format_value g var x = Inr ((if truthy x then ''1'' else ''0'') @ ident var))"
proof -
  from assms have shape:
    "var = (if sz = 1 then ScalarVariable (ident var) var_type sz
            else if var_type = ''real'' then RealVariable (ident var) var_type sz
            else VectorVariable (ident var) var_type sz)"
    unfolding register_var_def Let_def
    by (auto split: if_splits sum.splits prod.splits option.splits)
  show ?thesis
  proof (cases "sz = 1")
    case True
    with shape have v: "var = ScalarVariable (ident var) var_type sz" by simp
    have f: "format_value g var x = scalar_format_value (ident var) x"
      by (subst v) simp
    from v have "is_ScalarVariable var" "\<not> is_RealVariable var" "\<not> is_VectorVariable var"
      "type_v var = var_type" "size_v var = sz"
      by (cases var; simp)+
    with True f show ?thesis by (simp add: scalar_format_number)
  next
    case False
    show ?thesis
    proof (cases "var_type = ''real''")
      case True
      with False shape have v: "var = RealVariable (ident var) var_type sz" by simp
      from v have "\<not> is_ScalarVariable var" "is_RealVariable var" "\<not> is_VectorVariable var"
        "type_v var = var_type" "size_v var = sz"
        by (cases var; simp)+
      with False True show ?thesis by simp
    next
      case nr: False
      with False shape have v: "var = VectorVariable (ident var) var_type sz" by simp
      from v have "\<not> is_ScalarVariable var" "\<not> is_RealVariable var" "is_VectorVariable var"
        "type_v var = var_type" "size_v var = sz"
        by (cases var; simp)+
      with False nr show ?thesis by simp
    qed
  qed
qed

text \<open>
  C10 on a fresh writer: a \<^verbatim>\<open>real\<close> of size 1 with no initial value. Its default
  initial value \<^verbatim>\<open>0.0\<close> is cached as the scalar \<^verbatim>\<open>0v0\<close>, and the float 1.0
  (bit pattern \<open>0x3FF0000000000000\<close>) is formatted as \<^verbatim>\<open>1v0\<close>.
\<close>

theorem register_var_size_before_type_witness:
  "register_var no_reals fresh_writer (ScopeStr ''top'') ''temp'' ''real'' 1 PNone None =
     (Inr (ScalarVariable ''v0'' ''real'' 1),
      fresh_writer\<lparr>next_var_id := 1,
        scope_var_strs := [([''top''], [''$var real 1 v0 temp $end''])],
        scope_var_names := [([''top''], [''temp''])],
        ident_values := [(''v0'', ''0v0'')]\<rparr>)
   \<and> is_ScalarVariable (ScalarVariable ''v0'' ''real'' 1)
   \<and> \<not> is_RealVariable (ScalarVariable ''v0'' ''real'' 1)
   \<and> is_number (PFloat 0x3FF0000000000000)
   \<and> format_value no_reals (ScalarVariable ''v0'' ''real'' 1) (PFloat 0x3FF0000000000000) =
       Inr ''1v0''"
proof -
  have reg: "register_var no_reals fresh_writer (ScopeStr ''top'') ''temp'' ''real'' 1 PNone None =
     (Inr (ScalarVariable ''v0'' ''real'' 1),
      fresh_writer\<lparr>next_var_id := 1,
        scope_var_strs := [([''top''], [''$var real 1 v0 temp $end''])],
        scope_var_names := [([''top''], [''temp''])],
        ident_values := [(''v0'', ''0v0'')]\<rparr>)"
    by code_simp
  have t: "truthy (PFloat 0x3FF0000000000000)"
    by simp
  from register_var_size_before_type [OF reg, of "PFloat 0x3FF0000000000000"] reg t
  show ?thesis by simp
qed

section \<open>The header of four nested scopes (claim C4)\<close>

lemma dict_get_map_of: "dict_get d k = map_of d k"
  by (induction d) auto

lemma dict_get_present:
  "distinct (map fst d) \<Longrightarrow> (k, v) \<in> set d \<Longrightarrow> dict_get d k = Some v"
  by (simp add: dict_get_map_of)

lemma dict_get_filter_other:
  "dict_get (filter (\<lambda>kv. fst kv \<noteq> k) d) k' = (if k' = k then None else dict_get d k')"
  by (induction d) auto

lemma sort_four_scopes:
  fixes a b c :: string
  assumes "a < b" and "b < c"
    and "distinct ks" and "set ks = {[a], [a, b], [a, c], [b]}"
  shows "sort ks = [[a], [a, b], [a, c], [b]]"
proof -
  from assms(1,2) have ne: "a \<noteq> b" "b \<noteq> c" by auto
  then have d: "distinct [[a], [a, b], [a, c], [b]]" by auto
  have "mset [[a], [a, b], [a, c], [b]] = mset ks"
    using assms(3,4) d by (subst set_eq_iff_mset_eq_distinct [symmetric]) auto
  moreover have "sorted [[a], [a, b], [a, c], [b]]"
    using assms(1,2) by (auto simp: less_le)
  ultimately show ?thesis by (rule properties_for_sort)
qed

text \<open>
  C4: let the scopes registered be \<open>[a]\<close>, \<open>[a, b]\<close>, \<open>[a, c]\<close> and \<open>[b]\<close>, for
  names ordered \<open>a < b < c\<close> as the letters are, in any insertion order: the
  dictionary of staged \<^verbatim>\<open>$var\<close> lines holds these four keys, each once, in any order.
  Then \<^verbatim>\<open>_gen_header\<close> visits them in lexicographic order and yields, after the
  keyword lines: the \<^verbatim>\<open>$scope\<close> line of \<open>a\<close> and its variables; that of \<open>b\<close> under
  \<open>a\<close>, its variables and one \<^verbatim>\<open>$upscope\<close>; that of \<open>c\<close> under \<open>a\<close>, its
  variables and one \<^verbatim>\<open>$upscope\<close>; the \<^verbatim>\<open>$upscope\<close> of \<open>a\<close>; the \<^verbatim>\<open>$scope\<close> line
  of the top-level \<open>b\<close>, its variables and one \<^verbatim>\<open>$upscope\<close>; and
  \<^verbatim>\<open>$enddefinitions $end\<close>. Every scope has been popped from the dictionary.
\<close>

theorem header_four_scopes:
  assumes ab: "a < b" and bc: "b < c"
    and dist: "distinct (map fst (scope_var_strs w))"
    and content: "set (scope_var_strs w) = {([a], va), ([a, b], vab), ([a, c], vac), ([b], vb)}"
  shows "sort (map fst (scope_var_strs w)) = [[a], [a, b], [a, c], [b]]
       \<and> gen_header w =
     (Inr (concat (map keyword_lines (sort (header_keywords w))) @
           [scope_line w [a] a] @ va @
           [scope_line w [a, b] b] @ vab @ [''$upscope $end''] @
           [scope_line w [a, c] c] @ vac @ [''$upscope $end'', ''$upscope $end''] @
           [scope_line w [b] b] @ vb @ [''$upscope $end''] @
           [''$enddefinitions $end'']),
      w\<lparr>scope_var_strs := []\<rparr>)"
proof -
  let ?d = "scope_var_strs w"
  from ab bc have ne: "a \<noteq> b" "b \<noteq> c" "b \<noteq> a" "c \<noteq> b" by auto
  have keys: "set (map fst ?d) = {[a], [a, b], [a, c], [b]}"
    by (simp add: content)
  have order: "sort (map fst ?d) = [[a], [a, b], [a, c], [b]]"
    using ab bc dist keys by (rule sort_four_scopes)
  have get: "dict_get ?d [a] = Some va" "dict_get ?d [a, b] = Some vab"
    "dict_get ?d [a, c] = Some vac" "dict_get ?d [b] = Some vb"
    using dist by (simp_all add: dict_get_present content)
  have s1: "scope_switch w None [a] = Inr [scope_line w [a] a]"
    by (simp add: scope_switch_def)
  have s2: "scope_switch w (Some [a]) [a, b] = Inr [scope_line w [a, b] b]"
    by (simp add: scope_switch_def)
  have s3: "scope_switch w (Some [a, b]) [a, c] =
              Inr [''$upscope $end'', scope_line w [a, c] c]"
    using ne by (simp add: scope_switch_def)
  have s4: "scope_switch w (Some [a, c]) [b] =
              Inr [''$upscope $end'', ''$upscope $end'', scope_line w [b] b]"
    using ne by (simp add: scope_switch_def)
  have rest: "filter (\<lambda>kv. fst kv \<noteq> [b]) (filter (\<lambda>kv. fst kv \<noteq> [a, c])
               (filter (\<lambda>kv. fst kv \<noteq> [a, b]) (filter (\<lambda>kv. fst kv \<noteq> [a]) ?d))) = []"
    by (auto simp: filter_empty_conv content)
  have "gen_scopes w None [[a], [a, b], [a, c], [b]] ?d =
          (Inr ([scope_line w [a] a] @ va @
                [scope_line w [a, b] b] @ vab @ [''$upscope $end''] @
                [scope_line w [a, c] c] @ vac @ [''$upscope $end'', ''$upscope $end''] @
                [scope_line w [b] b] @ vb @ [''$upscope $end''] @
                [''$enddefinitions $end'']), [])"
    using ne by (simp add: dict_pop_def get dict_get_filter_other s1 s2 s3 s4 rest
        del: filter_filter)
  then show ?thesis
    by (simp add: gen_header_def order)
qed

text \<open>
  C4 on a fresh writer, the four scopes registered in the order \<open>[b]\<close>, \<open>[a, c]\<close>,
  \<open>[a]\<close>, \<open>[a, b]\<close> (the last one as the string \<^verbatim>\<open>a.b\<close>).
\<close>

theorem header_four_scopes_witness:
  "(''a''::string) < ''b'' \<and> (''b''::string) < ''c'' \<and>
   fst (gen_header (run no_reals fresh_writer
      [RegisterVar (ScopeSeq [''b'']) ''s'' ''wire'' 1 (PInt 0) None,
       RegisterVar (ScopeSeq [''a'', ''c'']) ''r'' ''wire'' 1 (PInt 0) None,
       RegisterVar (ScopeSeq [''a'']) ''p'' ''wire'' 1 (PInt 0) None,
       RegisterVar (ScopeStr ''a.b'') ''q'' ''wire'' 1 (PInt 0) None])) =
   Inr [''$date today $end'', ''$timescale 1 us $end'',
        ''$scope module a $end'', ''$var wire 1 v2 p $end'',
        ''$scope module b $end'', ''$var wire 1 v3 q $end'', ''$upscope $end'',
        ''$scope module c $end'', ''$var wire 1 v1 r $end'',
        ''$upscope $end'', ''$upscope $end'',
        ''$scope module b $end'', ''$var wire 1 v0 s $end'', ''$upscope $end'',
        ''$enddefinitions $end'']"
proof -
  define w where "w = run no_reals fresh_writer
      [RegisterVar (ScopeSeq [''b'']) ''s'' ''wire'' 1 (PInt 0) None,
       RegisterVar (ScopeSeq [''a'', ''c'']) ''r'' ''wire'' 1 (PInt 0) None,
       RegisterVar (ScopeSeq [''a'']) ''p'' ''wire'' 1 (PInt 0) None,
       RegisterVar (ScopeStr ''a.b'') ''q'' ''wire'' 1 (PInt 0) None]"
  have lt: "(''a''::string) < ''b''" "(''b''::string) < ''c''"
    by code_simp+
  have strs: "scope_var_strs w =
      [([''b''], [''$var wire 1 v0 s $end'']), ([''a'', ''c''], [''$var wire 1 v1 r $end'']),
       ([''a''], [''$var wire 1 v2 p $end'']), ([''a'', ''b''], [''$var wire 1 v3 q $end''])]"
    unfolding w_def by code_simp
  have dist: "distinct (map fst (scope_var_strs w))"
    by (simp add: strs)
  have content: "set (scope_var_strs w) =
      {([''a''], [''$var wire 1 v2 p $end'']), ([''a'', ''b''], [''$var wire 1 v3 q $end'']),
       ([''a'', ''c''], [''$var wire 1 v1 r $end'']), ([''b''], [''$var wire 1 v0 s $end''])}"
    by (auto simp: strs)
  have kw: "concat (map keyword_lines (sort (header_keywords w))) =
      [''$date today $end'', ''$timescale 1 us $end'']"
    unfolding w_def by code_simp
  have sl: "scope_line w [''a''] ''a'' = ''$scope module a $end''"
    "scope_line w [''a'', ''b''] ''b'' = ''$scope module b $end''"
    "scope_line w [''a'', ''c''] ''c'' = ''$scope module c $end''"
    "scope_line w [''b''] ''b'' = ''$scope module b $end''"
    unfolding w_def by code_simp+
  from header_four_scopes [OF lt dist content] lt show ?thesis
    unfolding w_def [symmetric] by (simp add: kw sl)
qed

section \<open>Finishing the registration of a well-formed writer\<close>

lemma dict_get_None_iff: "dict_get d k = None \<longleftrightarrow> k \<notin> fst ` set d"
  by (simp add: dict_get_map_of map_of_eq_None_iff)


lemma scope_switch_ok:
  "prev_scope \<noteq> Some scope \<Longrightarrow> \<exists>ls. scope_switch w prev_scope scope = Inr ls"
  by (simp add: scope_switch_def Let_def split: option.splits)

lemma gen_scopes_ok:
  assumes "distinct ks" and "set ks \<subseteq> fst ` set d"
    and "\<forall>p. prev_scope = Some p \<longrightarrow> p \<notin> set ks"
  shows "\<exists>ls. gen_scopes w prev_scope ks d = (Inr ls, filter (\<lambda>kv. fst kv \<notin> set ks) d)"
  using assms
proof (induction ks arbitrary: prev_scope d)
  case Nil
  then show ?case by simp
next
  case (Cons k ks)
  from Cons.prems(2) obtain v where v: "dict_get d k = Some v"
    by (cases "dict_get d k") (auto simp: dict_get_None_iff)
  let ?d1 = "filter (\<lambda>kv. fst kv \<noteq> k) d"
  have pop: "dict_pop d k = Inr (v, ?d1)"
    by (simp add: dict_pop_def v)
  from Cons.prems(3) have "prev_scope \<noteq> Some k" by auto
  then obtain ls where sw: "scope_switch w prev_scope k = Inr ls"
    using scope_switch_ok by blast
  have "set ks \<subseteq> fst ` set ?d1"
    using Cons.prems(1,2) by force
  moreover have "distinct ks" using Cons.prems(1) by simp
  moreover have "\<forall>p. Some k = Some p \<longrightarrow> p \<notin> set ks" using Cons.prems(1) by simp
  ultimately obtain tl_lines where
    rec: "gen_scopes w (Some k) ks ?d1 = (Inr tl_lines, filter (\<lambda>kv. fst kv \<notin> set ks) ?d1)"
    using Cons.IH by blast
  have "filter (\<lambda>kv. fst kv \<notin> set ks) ?d1 = filter (\<lambda>kv. fst kv \<notin> set (k # ks)) d"
    by (induction d) auto
  with pop sw rec show ?case by simp
qed

lemma gen_header_ok:
  assumes "distinct (map fst (scope_var_strs w))"
  shows "\<exists>ls. gen_header w = (Inr ls, w\<lparr>scope_var_strs := []\<rparr>)"
proof -
  let ?d = "scope_var_strs w"
  let ?ks = "sort (map fst ?d)"
  have a: "distinct ?ks" using assms by simp
  have b: "set ?ks \<subseteq> fst ` set ?d" by simp
  have c: "\<forall>p. (None::string list option) = Some p \<longrightarrow> p \<notin> set ?ks" by simp
  from gen_scopes_ok [OF a b c] obtain ls where
    g: "gen_scopes w None ?ks ?d = (Inr ls, filter (\<lambda>kv. fst kv \<notin> set ?ks) ?d)"
    by blast
  have "filter (\<lambda>kv. fst kv \<notin> set ?ks) ?d = []"
    by (simp add: filter_empty_conv)
  with g show ?thesis by (simp add: gen_header_def)
qed

lemma dump_off_items_ok:
  "\<forall>kv \<in> set d. snd kv \<noteq> [] \<Longrightarrow> fst (dump_off_items d) = None"
proof (induction d)
  case Nil
  then show ?case by simp
next
  case (Cons kv d)
  obtain idt val_str where kv: "kv = (idt, val_str)" by (cases kv)
  with Cons.prems obtain c cs where v: "val_str = c # cs" by (cases val_str) auto
  from Cons have "fst (dump_off_items d) = None" by simp
  then obtain ls where "dump_off_items d = (None, ls)" by (cases "dump_off_items d") simp
  then show ?case by (simp add: kv v)
qed

lemma marker_line_Cons: "marker_line t = CHR ''#'' # str_int t"
  by (simp add: marker_line_def)

lemma finalize_registration_ok:
  assumes wf: "well_formed w" and reg: "registering w"
  shows "\<exists>hl w'. gen_header w = (Inr hl, w\<lparr>scope_var_strs := []\<rparr>)
           \<and> finalize_registration w = (None, w')
           \<and> written (ofile w') = written (ofile w) @ print_star hl @
                 (if ident_values w = [] then []
                  else [''$dumpvars''] @ map snd (ident_values w) @ [''$end''] @
                       (if dumping w then []
                        else [marker_line 0, ''$dumpoff''] @
                             snd (dump_off_items (ident_values w)) @ [''$end'']))
           \<and> flush_count (ofile w') = flush_count (ofile w)
           \<and> \<not> registering w' \<and> closed w' = closed w \<and> dumping w' = dumping w
           \<and> prev_timestamp w' = prev_timestamp w \<and> ident_values w' = ident_values w
           \<and> next_var_id w' = next_var_id w
           \<and> header_keywords w' = [] \<and> scope_var_strs w' = []
           \<and> scope_var_names w' = [] \<and> scope_types w' = []
           \<and> default_scope_type w' = default_scope_type w \<and> scope_sep w' = scope_sep w"
proof -
  from wf obtain hl where gh: "gen_header w = (Inr hl, w\<lparr>scope_var_strs := []\<rparr>)"
    using gen_header_ok by (auto simp: well_formed_def)
  from wf have "fst (dump_off_items (ident_values w)) = None"
    by (intro dump_off_items_ok) (simp add: well_formed_def)
  then obtain dl where dl: "dump_off_items (ident_values w) = (None, dl)"
    by (cases "dump_off_items (ident_values w)") simp
  show ?thesis
    using reg
    by (simp add: finalize_registration_def gh dl emit_def dump_values_def dump_off_impl_def
        print_star_def Let_def marker_line_Cons)
qed

lemma flush_ok:
  assumes wf: "well_formed w" and open_w: "\<not> closed w"
  shows "\<exists>w1. flush w ts = (None, w1) \<and> \<not> registering w1 \<and> \<not> closed w1
           \<and> flush_count (ofile w1) = Suc (flush_count (ofile w))
           \<and> ident_values w1 = ident_values w \<and> dumping w1 = dumping w"
proof (cases "registering w")
  case True
  from finalize_registration_ok [OF wf True] obtain w' where
    "finalize_registration w = (None, w')" "flush_count (ofile w') = flush_count (ofile w)"
    "\<not> registering w'" "closed w' = closed w" "dumping w' = dumping w"
    "ident_values w' = ident_values w"
    by blast
  with True open_w show ?thesis
    by (simp add: flush_def emit_def Let_def split: option.split)
next
  case False
  with open_w show ?thesis
    by (simp add: flush_def emit_def Let_def split: option.split)
qed

section \<open>Closing the writer (claim C3)\<close>

text \<open>
  Claim C3 says that after \<^verbatim>\<open>close\<close> every mutating operation, \<^verbatim>\<open>dump_off\<close> and
  \<^verbatim>\<open>dump_on\<close> included, raises \<^verbatim>\<open>VCDPhaseError\<close> and writes nothing. Neither
  \<^verbatim>\<open>dump_off\<close> nor \<^verbatim>\<open>dump_on\<close> tests \<^verbatim>\<open>self._closed\<close>: on a closed writer with
  a cached value \<^verbatim>\<open>dump_off(5)\<close> returns and appends its block to the output.
\<close>

theorem dump_after_close_counterexample:
  "closed (run no_reals fresh_writer
      [RegisterVar (ScopeStr ''top'') ''clk'' ''wire'' 1 (PInt 0) None, Close None])
   \<and> dump_off (run no_reals fresh_writer
      [RegisterVar (ScopeStr ''top'') ''clk'' ''wire'' 1 (PInt 0) None, Close None]) 5 \<noteq>
     (Some VCDPhaseError, run no_reals fresh_writer
      [RegisterVar (ScopeStr ''top'') ''clk'' ''wire'' 1 (PInt 0) None, Close None])
   \<and> fst (dump_off (run no_reals fresh_writer
      [RegisterVar (ScopeStr ''top'') ''clk'' ''wire'' 1 (PInt 0) None, Close None]) 5) = None
   \<and> written (ofile (snd (dump_off (run no_reals fresh_writer
      [RegisterVar (ScopeStr ''top'') ''clk'' ''wire'' 1 (PInt 0) None, Close None]) 5))) =
     [''$date today $end'', ''$timescale 1 us $end'', ''$scope module top $end'',
      ''$var wire 1 v0 clk $end'', ''$upscope $end'', ''$enddefinitions $end'',
      ''$dumpvars'', ''0v0'', ''$end'',
      ''#5'', ''$dumpoff'', ''xv0'', ''$end'']"
  by code_simp


text \<open>
  C3, as amended. On a well-formed writer that is not closed, \<^verbatim>\<open>close\<close> returns, having
  done what \<^verbatim>\<open>flush\<close> does (one more flush of the file, the header written) and set
  the closed flag. On the closed writer, a second \<^verbatim>\<open>close\<close> changes nothing, and
  \<^verbatim>\<open>register_var\<close>, \<^verbatim>\<open>change\<close> and \<^verbatim>\<open>flush\<close> raise \<^verbatim>\<open>VCDPhaseError\<close> and
  leave the writer, its output included, as it was. \<^verbatim>\<open>dump_off\<close> and \<^verbatim>\<open>dump_on\<close>
  do not look at the phase: they return, set the dumping flag, and append their block to
  the output whenever the flag flips and a value is cached.
\<close>

theorem close_then_phase_errors:
  assumes wf: "well_formed w" and open_w: "\<not> closed w"
  shows "(let w' = snd (close w ts) in
            fst (close w ts) = None \<and> fst (flush w ts) = None
          \<and> w' = (snd (flush w ts))\<lparr>closed := True\<rparr>
          \<and> flush_count (ofile w') = Suc (flush_count (ofile w))
          \<and> closed w' \<and> \<not> registering w'
          \<and> close w' ts' = (None, w')
          \<and> register_var g w' scope name var_type sz init idt = (Inl VCDPhaseError, w')
          \<and> change g w' var t val = (Some VCDPhaseError, w')
          \<and> flush w' ts' = (Some VCDPhaseError, w')
          \<and> fst (dump_off w' t) = None
          \<and> written (ofile (snd (dump_off w' t))) = written (ofile w') @
                (if dumping w' \<and> ident_values w' \<noteq> []
                 then [marker_line t, ''$dumpoff''] @
                      snd (dump_off_items (ident_values w')) @ [''$end'']
                 else [])
          \<and> \<not> dumping (snd (dump_off w' t))
          \<and> written (ofile (dump_on w' t)) = written (ofile w') @
                (if \<not> dumping w' \<and> ident_values w' \<noteq> []
                 then [marker_line t, ''$dumpon''] @ map snd (ident_values w') @ [''$end'']
                 else [])
          \<and> dumping (dump_on w' t))"
proof -
  from flush_ok [OF wf open_w] obtain w1 where
    fl: "flush w ts = (None, w1)" and nreg: "\<not> registering w1"
    and cnt: "flush_count (ofile w1) = Suc (flush_count (ofile w))"
    and vals: "ident_values w1 = ident_values w"
    by blast
  define w' where "w' = w1\<lparr>closed := True\<rparr>"
  have cl: "close w ts = (None, w')"
    using open_w by (simp add: close_def fl w'_def)
  have c: "closed w'" and r: "\<not> registering w'"
    and f: "flush_count (ofile w') = Suc (flush_count (ofile w))"
    and v: "ident_values w' = ident_values w"
    using nreg cnt vals by (simp_all add: w'_def)
  from wf have "fst (dump_off_items (ident_values w')) = None"
    unfolding v by (intro dump_off_items_ok) (simp add: well_formed_def)
  then obtain dl where dl: "dump_off_items (ident_values w') = (None, dl)"
    by (cases "dump_off_items (ident_values w')") simp
  have 1: "close w' ts' = (None, w')"
    using c by (simp add: close_def)
  have 2: "register_var g w' scope name var_type sz init idt = (Inl VCDPhaseError, w')"
    using c by (simp add: register_var_def)
  have 3: "change g w' var t val = (Some VCDPhaseError, w')"
    using c by (simp add: change_def)
  have 4: "flush w' ts' = (Some VCDPhaseError, w')"
    using c by (simp add: flush_def)
  have 5: "fst (dump_off w' t) = None" "\<not> dumping (snd (dump_off w' t))"
    "written (ofile (snd (dump_off w' t))) = written (ofile w') @
       (if dumping w' \<and> ident_values w' \<noteq> []
        then [marker_line t, ''$dumpoff''] @ snd (dump_off_items (ident_values w')) @ [''$end'']
        else [])"
    using r by (simp_all add: dump_off_def dump_off_impl_def dl emit_def Let_def marker_line_Cons)
  have 6: "dumping (dump_on w' t)"
    "written (ofile (dump_on w' t)) = written (ofile w') @
       (if \<not> dumping w' \<and> ident_values w' \<noteq> []
        then [marker_line t, ''$dumpon''] @ map snd (ident_values w') @ [''$end'']
        else [])"
    using r by (simp_all add: dump_on_def dump_values_def emit_def Let_def print_star_def
        marker_line_Cons)
  show ?thesis
    unfolding Let_def cl fl snd_conv fst_conv
    using c r f 1 2 3 4 5 6 by (simp add: w'_def [symmetric])
qed

text \<open>
  The amended C3 on a writer with one registered variable: it is closed with no
  timestamp, then closed again, and every other operation is tried on it.
\<close>

theorem close_then_phase_errors_witness:
  "(let w = run no_reals fresh_writer
              [RegisterVar (ScopeStr ''top'') ''clk'' ''wire'' 1 (PInt 0) None];
        w' = snd (close w None)
    in well_formed w \<and> \<not> closed w
     \<and> fst (close w None) = None \<and> closed w'
     \<and> flush_count (ofile w') = Suc (flush_count (ofile w))
     \<and> close w' (Some 7) = (None, w')
     \<and> register_var no_reals w' (ScopeStr ''top'') ''rst'' ''wire'' 1 (PInt 0) None =
         (Inl VCDPhaseError, w')
     \<and> change no_reals w' (ScalarVariable ''v0'' ''wire'' 1) 5 (PInt 1) =
         (Some VCDPhaseError, w')
     \<and> flush w' (Some 7) = (Some VCDPhaseError, w')
     \<and> fst (dump_off w' 5) = None
     \<and> dumping (dump_on w' 5))"
proof -
  define w where "w = run no_reals fresh_writer
              [RegisterVar (ScopeStr ''top'') ''clk'' ''wire'' 1 (PInt 0) None]"
  have wf: "well_formed w" unfolding w_def by code_simp
  have nc: "\<not> closed w" unfolding w_def by code_simp
  note facts = close_then_phase_errors [OF wf nc, of None "Some 7" no_reals "ScopeStr ''top''"
      "''rst''" "''wire''" 1 "PInt 0" None "ScalarVariable ''v0'' ''wire'' 1" 5 "PInt 1",
      unfolded Let_def]
  show ?thesis
    unfolding w_def [symmetric] Let_def using facts wf nc by blast
qed

section \<open>The order of the timestamp markers (claim C5)\<close>

lemma is_marker_Nil [simp]: "is_marker [] = False"
  by (simp add: is_marker_def)

lemma is_marker_Cons [simp]: "is_marker (c # s) = (c = CHR ''#'')"
  by (simp add: is_marker_def)

lemma is_marker_marker_line [simp]: "is_marker (marker_line t)"
  by (simp add: marker_line_def)


lemma one_line_Nil [simp]: "one_line []"
  by (simp add: one_line_def)

lemma one_line_Cons [simp]: "one_line (c # s) = (c \<noteq> CHR 0x0A \<and> one_line s)"
  by (auto simp: one_line_def)

lemma one_line_append [simp]: "one_line (a @ b) = (one_line a \<and> one_line b)"
  by (auto simp: one_line_def)

lemma one_line_rev [simp]: "one_line (rev a) = one_line a"
  by (simp add: one_line_def)

lemma digit_char_one_line: "digit_char d \<noteq> CHR 0x0A"
proof -
  have "digit_char d \<in> set ''0123456789''"
    unfolding digit_char_def by (rule nth_mem) simp
  then show ?thesis by auto
qed

lemma one_line_str_nat [simp]: "one_line (str_nat n)"
proof (induction n rule: str_nat.induct)
  case (1 n)
  then show ?case
    by (subst str_nat.simps) (simp add: digit_char_one_line)
qed

lemma one_line_str_int [simp]: "one_line (str_int i)"
  by (simp add: str_int_def)

lemma one_line_bin_nat [simp]: "one_line (bin_nat n)"
proof (induction n rule: bin_nat.induct)
  case (1 n)
  then show ?case
    by (subst bin_nat.simps) (simp add: digit_char_one_line)
qed

lemma one_line_format_b [simp]: "one_line (format_b i)"
  by (simp add: format_b_def)

lemma one_line_marker_line [simp]: "one_line (marker_line t)"
  by (simp add: marker_line_def)








lemma ordered_markers_Nil [simp]: "ordered_markers c []"
  by (simp add: ordered_markers_def)





lemma plain_lineI: "one_line s \<Longrightarrow> \<not> is_marker s \<Longrightarrow> plain_line s"
  by (simp add: plain_line_def)















lemma stream_inv_flags [simp]:
  "stream_inv c (w\<lparr>dumping := b\<rparr>) = stream_inv c w"
  "stream_inv c (w\<lparr>closed := b\<rparr>) = stream_inv c w"
  "stream_inv c (w\<lparr>scope_var_names := sn\<rparr>) = stream_inv c w"
  "stream_inv c (w\<lparr>next_var_id := n\<rparr>) = stream_inv c w"
  "stream_inv c (w\<lparr>ofile := (ofile w)\<lparr>flush_count := k\<rparr>\<rparr>) = stream_inv c w"
  by (simp_all add: stream_inv_def well_formed_def markers_def stream_lines_def)











lemma call_texts_time:
  "\<forall>x \<in> set (call_texts (Change var t val)). one_line x \<Longrightarrow>
   \<forall>x \<in> set (call_texts (Change var t' val)). one_line x"
  by (cases var) simp_all





















end
